theory Spec2Isabelle
  imports Complex_Main "HOL-Library.Char_ord" "HOL-Library.List_Lexorder"
    "HOL-Library.Product_Lexorder" "HOL-Library.Multiset"
begin

section \<open>Cells, rows and exceptions\<close>

text \<open>
  A cell of a pandas table holds a string, a float or the missing value. A finite float
  is modelled by the real number it denotes, and the literals \<open>0.6\<close> and \<open>0.3\<close> of
  the source by the decimal fractions; the two infinities and NaN are values of their
  own, compared as IEEE floats are. Integers and booleans read from a CSV file compare
  as numbers in Python and are \<open>Num\<close> cells.
\<close>

datatype cell = is_Str: Str string | Num real | PosInf | NegInf | NaN

text \<open>The Python exceptions the script can raise and does not catch.\<close>

datatype exn = KeyError string | TypeError | AttributeError

text \<open>
  The row handed to \<open>classify_health\<close> by \<open>DataFrame.apply(axis=1)\<close> is a Series
  indexed by the column names: \<open>row['c']\<close> raises KeyError when the table has no
  column \<open>c\<close>.
\<close>

type_synonym series = "string \<rightharpoonup> cell"

definition getitem :: "series \<Rightarrow> string \<Rightarrow> exn + cell" where
  "getitem row k = (case row k of None \<Rightarrow> Inl (KeyError k) | Some v \<Rightarrow> Inr v)"

text \<open>\<open>v != s\<close> for a string literal \<open>s\<close>: a float never equals a string.\<close>

fun py_ne :: "cell \<Rightarrow> string \<Rightarrow> bool" where
  "py_ne (Str s) t = (s \<noteq> t)"
| "py_ne _ t = True"

text \<open>
  \<open>v >= c\<close> for a float literal \<open>c\<close>: every comparison with NaN is false, and
  comparing a string with a float raises TypeError.
\<close>

fun py_ge :: "cell \<Rightarrow> real \<Rightarrow> exn + bool" where
  "py_ge (Num x) c = Inr (x \<ge> c)"
| "py_ge PosInf c = Inr True"
| "py_ge NegInf c = Inr False"
| "py_ge NaN c = Inr False"
| "py_ge (Str s) c = Inl TypeError"

text \<open>\<open>v < c\<close> on floats, used to state the thresholds of the specification.\<close>

fun py_lt :: "cell \<Rightarrow> real \<Rightarrow> bool" where
  "py_lt (Num x) c = (x < c)"
| "py_lt NegInf c = True"
| "py_lt _ c = False"

section \<open>The health classifier\<close>

definition classify_health :: "series \<Rightarrow> exn + string" where
  "classify_health row =
     (case getitem row ''class'' of
        Inl e \<Rightarrow> Inl e
      | Inr c \<Rightarrow>
          if py_ne c ''palm'' then Inr ''Soil''
          else (case getitem row ''ndvi'' of
                  Inl e \<Rightarrow> Inl e
                | Inr v \<Rightarrow>
                    (case py_ge v 0.6 of
                       Inl e \<Rightarrow> Inl e
                     | Inr True \<Rightarrow> Inr ''Healthy''
                     | Inr False \<Rightarrow>
                         (case py_ge v 0.3 of
                            Inl e \<Rightarrow> Inl e
                          | Inr True \<Rightarrow> Inr ''Moderate''
                          | Inr False \<Rightarrow> Inr ''Unhealthy''))))"

section \<open>Tables\<close>

text \<open>
  A DataFrame is its list of column names and its rows, in order. A row gives the cell
  under each column name; only its values at the names in \<open>columns\<close> belong to the
  table. The row labels (the index) are not modelled: the script never reads them.
\<close>

record frame =
  columns :: "string list"
  rows :: "(string \<Rightarrow> cell) list"

definition series_of :: "string list \<Rightarrow> (string \<Rightarrow> cell) \<Rightarrow> series" where
  "series_of cols r = (\<lambda>c. if c \<in> set cols then Some (r c) else None)"

text \<open>\<open>df[df[c] == v]\<close> for a string \<open>v\<close>; KeyError when the column is absent.\<close>

definition select_eq :: "frame \<Rightarrow> string \<Rightarrow> string \<Rightarrow> exn + frame" where
  "select_eq df c v =
     (if c \<in> set (columns df)
      then Inr (df\<lparr>rows := filter (\<lambda>r. r c = Str v) (rows df)\<rparr>)
      else Inl (KeyError c))"

text \<open>\<open>df[df[c].isin(vs)]\<close> for a list of strings.\<close>

definition select_isin :: "frame \<Rightarrow> string \<Rightarrow> string list \<Rightarrow> exn + frame" where
  "select_isin df c vs =
     (if c \<in> set (columns df)
      then Inr (df\<lparr>rows := filter (\<lambda>r. r c \<in> Str ` set vs) (rows df)\<rparr>)
      else Inl (KeyError c))"

text \<open>\<open>df[c] = v\<close>: the column is overwritten when it exists and appended otherwise.\<close>

definition set_column :: "frame \<Rightarrow> string \<Rightarrow> cell \<Rightarrow> frame" where
  "set_column df c v =
     \<lparr>columns = (if c \<in> set (columns df) then columns df else columns df @ [c]),
      rows = map (\<lambda>r. r(c := v)) (rows df)\<rparr>"

subsection \<open>Column names and string methods\<close>

text \<open>
  \<open>str.lower\<close> and \<open>str.strip\<close> on ASCII text: characters are bytes here, so letters
  outside ASCII are left as they are.
\<close>

definition lower_char :: "char \<Rightarrow> char" where
  "lower_char c =
     (if CHR ''A'' \<le> c \<and> c \<le> CHR ''Z'' then char_of (of_char c + (32::nat)) else c)"

definition lower :: "string \<Rightarrow> string" where
  "lower s = map lower_char s"

definition is_space :: "char \<Rightarrow> bool" where
  "is_space c =
     (c = CHR '' '' \<or> (9::nat) \<le> of_char c \<and> of_char c \<le> (13::nat)
      \<or> (28::nat) \<le> of_char c \<and> of_char c \<le> (31::nat))"

definition strip :: "string \<Rightarrow> string" where
  "strip s = rev (dropWhile is_space (rev (dropWhile is_space s)))"

definition normalize_name :: "string \<Rightarrow> string" where
  "normalize_name c = strip (lower c)"

text \<open>
  \<open>df.columns = df.columns.str.lower().str.strip()\<close> renames the columns in place. The
  cell under a new name is the cell of the first column that is renamed to it.
\<close>

definition rename_row :: "string list \<Rightarrow> (string \<Rightarrow> string) \<Rightarrow> (string \<Rightarrow> cell) \<Rightarrow> string \<Rightarrow> cell" where
  "rename_row cols f r = (\<lambda>c'. case find (\<lambda>c. f c = c') cols of Some c \<Rightarrow> r c | None \<Rightarrow> NaN)"

definition rename_columns :: "(string \<Rightarrow> string) \<Rightarrow> frame \<Rightarrow> frame" where
  "rename_columns f df =
     \<lparr>columns = map f (columns df), rows = map (rename_row (columns df) f) (rows df)\<rparr>"

text \<open>
  A column read by \<open>pd.read_csv\<close> has the object type when it holds a string, or when
  the table has no rows; a column of numbers and missing values only is numeric.
\<close>

definition object_dtype :: "frame \<Rightarrow> string \<Rightarrow> bool" where
  "object_dtype df c \<longleftrightarrow> rows df = [] \<or> list_ex (\<lambda>r. is_Str (r c)) (rows df)"

text \<open>
  \<open>df[c] = df[c].str.lower()\<close>. The \<open>.str\<close> accessor raises AttributeError on a column
  that is not of the object type. An entry that is not a string becomes NaN.
\<close>

fun lower_cell :: "cell \<Rightarrow> cell" where
  "lower_cell (Str s) = Str (lower s)"
| "lower_cell _ = NaN"

definition str_lower_column :: "frame \<Rightarrow> string \<Rightarrow> exn + frame" where
  "str_lower_column df c =
     (if object_dtype df c
      then Inr (df\<lparr>rows := map (\<lambda>r. r(c := lower_cell (r c))) (rows df)\<rparr>)
      else Inl AttributeError)"

text \<open>
  \<open>pd.concat(dfs, ignore_index=True)\<close>: the columns are the union of the tables'
  columns in order of first appearance, the rows follow each other, and a row has NaN
  under every column its own table lacks.
\<close>

fun union_columns :: "string list list \<Rightarrow> string list" where
  "union_columns [] = []"
| "union_columns (cs # css) = cs @ filter (\<lambda>c. c \<notin> set cs) (union_columns css)"

definition reindex :: "string list \<Rightarrow> (string \<Rightarrow> cell) \<Rightarrow> string \<Rightarrow> cell" where
  "reindex cols r = (\<lambda>c. if c \<in> set cols then r c else NaN)"

definition pd_concat :: "frame list \<Rightarrow> frame" where
  "pd_concat dfs =
     \<lparr>columns = union_columns (map columns dfs),
      rows = concat (map (\<lambda>df. map (reindex (columns df)) (rows df)) dfs)\<rparr>"

section \<open>The file system\<close>

text \<open>
  A path is the list of the components joined by \<open>os.path.join\<close>. The record gives
  the answers of the operating system and of the CSV parser: \<open>pd_read_csv\<close> is the
  table \<open>pd.read_csv\<close> returns for a file that exists.
\<close>

type_synonym path = "string list"

record filesystem =
  path_exists :: "path \<Rightarrow> bool"
  path_isdir :: "path \<Rightarrow> bool"
  os_listdir :: "path \<Rightarrow> string list"
  pd_read_csv :: "path \<Rightarrow> frame"

definition DATA_DIR :: string where
  "DATA_DIR = ''D:/Data''"

definition get_all_dates :: "filesystem \<Rightarrow> string list" where
  "get_all_dates fs =
     sort (filter (\<lambda>d. path_isdir fs [DATA_DIR, d]) (os_listdir fs [DATA_DIR]))"

definition load_data :: "filesystem \<Rightarrow> string \<Rightarrow> exn + frame option" where
  "load_data fs date_folder =
     (let path = [DATA_DIR, date_folder, ''classified_index.csv''] in
      if path_exists fs path then
        (let df = rename_columns normalize_name (pd_read_csv fs path) in
         case (if ''class'' \<in> set (columns df) then str_lower_column df ''class'' else Inr df) of
           Inl e \<Rightarrow> Inl e
         | Inr df' \<Rightarrow> Inr (Some (set_column df' ''__date__'' (Str date_folder))))
      else Inr None)"

definition load_image_if_exists :: "filesystem \<Rightarrow> path \<Rightarrow> path option" where
  "load_image_if_exists fs p = (if path_exists fs p then Some p else None)"

text \<open>The loop over \<open>all_dates\<close>: a date without its CSV file adds nothing.\<close>

fun load_all :: "filesystem \<Rightarrow> string list \<Rightarrow> exn + frame list" where
  "load_all fs [] = Inr []"
| "load_all fs (d # ds) =
     (case load_data fs d of
        Inl e \<Rightarrow> Inl e
      | Inr None \<Rightarrow> load_all fs ds
      | Inr (Some df) \<Rightarrow>
          (case load_all fs ds of Inl e \<Rightarrow> Inl e | Inr dfs \<Rightarrow> Inr (df # dfs)))"

section \<open>Assigning the health status\<close>

text \<open>
  \<open>df.apply(f, axis=1)\<close> calls \<open>f\<close> on every row in order; the first exception ends
  the call. \<open>df[c] = values\<close> then stores one value per row.
\<close>

fun apply_rows :: "(series \<Rightarrow> exn + 'a) \<Rightarrow> string list \<Rightarrow> (string \<Rightarrow> cell) list \<Rightarrow> exn + 'a list" where
  "apply_rows f cols [] = Inr []"
| "apply_rows f cols (r # rs) =
     (case f (series_of cols r) of
        Inl e \<Rightarrow> Inl e
      | Inr v \<Rightarrow> (case apply_rows f cols rs of Inl e \<Rightarrow> Inl e | Inr vs \<Rightarrow> Inr (v # vs)))"

definition set_column_values :: "frame \<Rightarrow> string \<Rightarrow> cell list \<Rightarrow> frame" where
  "set_column_values df c vs =
     \<lparr>columns = (if c \<in> set (columns df) then columns df else columns df @ [c]),
      rows = map (\<lambda>(r, v). r(c := v)) (zip (rows df) vs)\<rparr>"

text \<open>The messages of \<open>st.error\<close> that are followed by \<open>st.stop()\<close>.\<close>

datatype fatal = DataDirNotFound | NoDatedFolders | NoValidCsv | MissingNdvi

datatype 'a outcome = Done 'a | Halted fatal | Raised exn

definition assign_health :: "frame \<Rightarrow> frame outcome" where
  "assign_health full_df =
     (if ''health_status'' \<notin> set (columns full_df) then
        (if ''ndvi'' \<in> set (columns full_df) then
           (case apply_rows classify_health (columns full_df) (rows full_df) of
              Inl e \<Rightarrow> Raised e
            | Inr labels \<Rightarrow> Done (set_column_values full_df ''health_status'' (map Str labels)))
         else Halted MissingNdvi)
      else Done full_df)"

text \<open>The script up to the point where the table of all dates is ready.\<close>

definition prepare :: "filesystem \<Rightarrow> (string list \<times> frame) outcome" where
  "prepare fs =
     (if \<not> path_exists fs [DATA_DIR] then Halted DataDirNotFound
      else
        (let all_dates = get_all_dates fs in
         if all_dates = [] then Halted NoDatedFolders
         else
           (case load_all fs all_dates of
              Inl e \<Rightarrow> Raised e
            | Inr all_data \<Rightarrow>
                if all_data = [] then Halted NoValidCsv
                else
                  (case assign_health (pd_concat all_data) of
                     Done full_df \<Rightarrow> Done (all_dates, full_df)
                   | Halted f \<Rightarrow> Halted f
                   | Raised e \<Rightarrow> Raised e))))"

section \<open>The sections of the dashboard\<close>

definition andthen :: "exn + 'a \<Rightarrow> ('a \<Rightarrow> exn + 'b) \<Rightarrow> exn + 'b" where
  "andthen m f = (case m of Inl e \<Rightarrow> Inl e | Inr x \<Rightarrow> f x)"

definition shape0 :: "frame \<Rightarrow> nat" where
  "shape0 df = length (rows df)"

definition selected_palm :: "frame \<Rightarrow> string \<Rightarrow> exn + frame" where
  "selected_palm full_df selected_date =
     andthen (select_eq full_df ''__date__'' selected_date)
       (\<lambda>selected_df. select_eq selected_df ''class'' ''palm'')"

definition kpis :: "frame \<Rightarrow> exn + nat \<times> nat \<times> nat \<times> nat" where
  "kpis selected_palm_df =
     andthen (select_eq selected_palm_df ''health_status'' ''Healthy'') (\<lambda>hdf.
     andthen (select_eq selected_palm_df ''health_status'' ''Moderate'') (\<lambda>mdf.
     andthen (select_eq selected_palm_df ''health_status'' ''Unhealthy'') (\<lambda>udf.
       Inr (shape0 hdf, shape0 mdf, shape0 udf, shape0 selected_palm_df))))"

text \<open>
  The order of labels. pandas sorts numbers before strings and puts missing values
  last; strings are compared character by character.
\<close>

fun cell_key :: "cell \<Rightarrow> nat \<times> real \<times> string" where
  "cell_key NegInf = (0, 0, [])"
| "cell_key (Num x) = (1, x, [])"
| "cell_key PosInf = (2, 0, [])"
| "cell_key (Str s) = (3, 0, s)"
| "cell_key NaN = (4, 0, [])"

text \<open>
  \<open>value_counts()\<close>: the number of rows per value, missing values left out, the most
  frequent value first.
\<close>

definition value_counts :: "frame \<Rightarrow> string \<Rightarrow> exn + (cell \<times> nat) list" where
  "value_counts df c =
     (if c \<in> set (columns df) then
        (let vs = filter (\<lambda>v. v \<noteq> NaN) (map (\<lambda>r. r c) (rows df)) in
         Inr (sort_key (\<lambda>(v, n). - int n) (map (\<lambda>v. (v, count_list vs v)) (remdups vs))))
      else Inl (KeyError c))"

text \<open>
  The at-risk section. \<open>risky_palms[display_cols]\<close> raises KeyError when one of the
  three columns is absent. The table on screen is sorted by \<open>health_status\<close>; the rows
  handed to \<open>to_csv\<close> for the download are not. pandas does not fix the order of rows
  with equal keys in \<open>sort_values\<close>; the model sorts by insertion, and nothing below
  depends on that choice. The text pandas writes for the download is not modelled.
\<close>

type_synonym location = "cell \<times> cell \<times> cell"

definition display_cols :: "string list" where
  "display_cols = [''health_status'', ''latitude'', ''longitude'']"

definition project_display :: "frame \<Rightarrow> exn + location list" where
  "project_display df =
     (case find (\<lambda>c. c \<notin> set (columns df)) display_cols of
        Some c \<Rightarrow> Inl (KeyError c)
      | None \<Rightarrow> Inr (map (\<lambda>r. (r ''health_status'', r ''latitude'', r ''longitude'')) (rows df)))"

datatype at_risk_view = NoAtRisk | AtRisk "location list" "location list"

definition at_risk :: "frame \<Rightarrow> exn + at_risk_view" where
  "at_risk selected_palm_df =
     andthen (select_isin selected_palm_df ''health_status'' [''Moderate'', ''Unhealthy''])
       (\<lambda>risky_palms.
          if rows risky_palms \<noteq> [] then
            andthen (project_display risky_palms)
              (\<lambda>locs. Inr (AtRisk (sort_key (\<lambda>l. cell_key (fst l)) locs) locs))
          else Inr NoAtRisk)"

fun listing :: "at_risk_view \<Rightarrow> location list" where
  "listing NoAtRisk = []"
| "listing (AtRisk shown csv_rows) = shown"

fun exported :: "at_risk_view \<Rightarrow> location list" where
  "exported NoAtRisk = []"
| "exported (AtRisk shown csv_rows) = csv_rows"

text \<open>
  The time series. \<open>groupby([c1, c2]).size()\<close> counts the rows of every pair of keys
  that occurs, in sorted order, leaving out rows with a missing key;
  \<open>unstack(fill_value=0)\<close> turns the second key into columns and writes 0 where a pair
  does not occur.
\<close>

definition group_sizes :: "frame \<Rightarrow> string \<Rightarrow> string \<Rightarrow> exn + ((cell \<times> cell) \<times> nat) list" where
  "group_sizes df c1 c2 =
     (if c1 \<notin> set (columns df) then Inl (KeyError c1)
      else if c2 \<notin> set (columns df) then Inl (KeyError c2)
      else
        (let keys = map (\<lambda>r. (r c1, r c2)) (filter (\<lambda>r. r c1 \<noteq> NaN \<and> r c2 \<noteq> NaN) (rows df)) in
         Inr (map (\<lambda>k. (k, count_list keys k))
                (sort_key (\<lambda>k. (cell_key (fst k), cell_key (snd k))) (remdups keys)))))"

record pivot =
  pindex :: "cell list"
  pcolumns :: "cell list"
  pdata :: "nat list list"

definition unstack :: "((cell \<times> cell) \<times> nat) list \<Rightarrow> pivot" where
  "unstack sizes =
     (let idx = remdups (map (\<lambda>e. fst (fst e)) sizes);
          cols = sort_key cell_key (remdups (map (\<lambda>e. snd (fst e)) sizes))
      in \<lparr>pindex = idx, pcolumns = cols,
          pdata = map (\<lambda>d. map (\<lambda>b. case map_of sizes (d, b) of Some n \<Rightarrow> n | None \<Rightarrow> 0) cols) idx\<rparr>)"

definition time_series :: "frame \<Rightarrow> exn + pivot" where
  "time_series full_df =
     andthen (select_eq full_df ''class'' ''palm'') (\<lambda>palm_df.
     andthen (group_sizes palm_df ''__date__'' ''health_status'') (\<lambda>sizes.
       Inr (unstack sizes)))"

section \<open>The script\<close>

definition index_names :: "string list" where
  "index_names = [''NDVI'', ''NDWI'', ''RESI'', ''SQRT(IR_R)'', ''GVI'', ''DVI'', ''RDVI'']"

definition health_map_path :: "string \<Rightarrow> path" where
  "health_map_path selected_date =
     [DATA_DIR, selected_date, ''visualizations'', selected_date @ ''_health_grid.png'']"

definition heatmap_path :: "string \<Rightarrow> string \<Rightarrow> path" where
  "heatmap_path selected_date index =
     [DATA_DIR, selected_date, selected_date @ ''_'' @ index @ ''_grid1.png'']"

text \<open>
  What one run shows. An image is the path that was opened, or \<open>None\<close> where the
  script shows its informational placeholder. The bar chart is present when the table
  has a \<open>resi\<close> column; its group means are float arithmetic of pandas and are not
  modelled. Headings and captions are left out.
\<close>

record dashboard =
  kpi :: "nat \<times> nat \<times> nat \<times> nat"
  pie :: "(cell \<times> nat) list"
  resi_chart :: bool
  health_map :: "path option"
  heatmaps :: "(nat \<times> string \<times> path option) list"
  at_risk_section :: at_risk_view
  trend :: pivot
  palm_csv :: frame

definition render :: "filesystem \<Rightarrow> frame \<Rightarrow> string \<Rightarrow> exn + dashboard" where
  "render fs full_df selected_date =
     andthen (selected_palm full_df selected_date) (\<lambda>selected_palm_df.
     andthen (kpis selected_palm_df) (\<lambda>k.
     andthen (value_counts selected_palm_df ''health_status'') (\<lambda>pie_data.
     andthen (at_risk selected_palm_df) (\<lambda>risk.
     andthen (select_eq full_df ''class'' ''palm'') (\<lambda>palm_df.
     andthen (time_series full_df) (\<lambda>ts.
       Inr \<lparr>kpi = k, pie = pie_data,
            resi_chart = (''resi'' \<in> set (columns selected_palm_df)),
            health_map = load_image_if_exists fs (health_map_path selected_date),
            heatmaps = map (\<lambda>(idx, index).
                          (idx mod 3, index,
                           load_image_if_exists fs (heatmap_path selected_date index)))
                        (enumerate 0 index_names),
            at_risk_section = risk, trend = ts, palm_csv = palm_df\<rparr>))))))"

text \<open>
  The whole run, for the date the user picks in the sidebar (one of \<open>all_dates\<close>).
\<close>

definition main :: "filesystem \<Rightarrow> string \<Rightarrow> dashboard outcome" where
  "main fs selected_date =
     (case prepare fs of
        Halted f \<Rightarrow> Halted f
      | Raised e \<Rightarrow> Raised e
      | Done (all_dates, full_df) \<Rightarrow>
          (case render fs full_df selected_date of
             Inl e \<Rightarrow> Raised e
           | Inr d \<Rightarrow> Done d))"

section \<open>Notions used to state the properties\<close>

text \<open>The path \<open>load_data\<close> looks for in a dated folder.\<close>

definition csv_path :: "string \<Rightarrow> path" where
  "csv_path date_folder = [DATA_DIR, date_folder, ''classified_index.csv'']"

text \<open>
  The entry of a pivot table under a row label and a column label; \<open>None\<close> when the
  table has no such entry.
\<close>

definition pivot_at :: "pivot \<Rightarrow> cell \<Rightarrow> cell \<Rightarrow> nat option" where
  "pivot_at ts d b =
     (case map_of (zip (pindex ts) (pdata ts)) d of
        None \<Rightarrow> None
      | Some counts \<Rightarrow> map_of (zip (pcolumns ts) counts) b)"

text \<open>The table of all dates a run works on, when the run gets that far.\<close>

definition full_df_of :: "filesystem \<Rightarrow> frame" where
  "full_df_of fs =
     (case prepare fs of Done (all_dates, full_df) \<Rightarrow> full_df | _ \<Rightarrow> \<lparr>columns = [], rows = []\<rparr>)"

section \<open>Example inputs\<close>

definition mk_row :: "(string \<times> cell) list \<Rightarrow> string \<Rightarrow> cell" where
  "mk_row kvs = (\<lambda>c. case map_of kvs c of Some v \<Rightarrow> v | None \<Rightarrow> NaN)"

text \<open>
  A data directory with three dated folders and a plain file. January holds four palms
  (one without an NDVI value) and a soil record, February holds soil only, March has no
  CSV file. Only January has its health map.
\<close>

definition ex_csv_jan :: frame where
  "ex_csv_jan =
     \<lparr>columns = [''Class'', '' NDVI'', ''latitude'', ''longitude''],
      rows =
        [mk_row [(''Class'', Str ''Palm''), ('' NDVI'', Num 0.75), (''latitude'', Num 1), (''longitude'', Num 10)],
         mk_row [(''Class'', Str ''palm''), ('' NDVI'', Num 0.1), (''latitude'', Num 2), (''longitude'', Num 20)],
         mk_row [(''Class'', Str ''palm''), ('' NDVI'', Num 0.45), (''latitude'', Num 3), (''longitude'', Num 30)],
         mk_row [(''Class'', Str ''soil''), ('' NDVI'', Num 0.2), (''latitude'', Num 4), (''longitude'', Num 40)],
         mk_row [(''Class'', Str ''palm''), ('' NDVI'', NaN), (''latitude'', Num 5), (''longitude'', Num 50)]]\<rparr>"

definition ex_csv_feb :: frame where
  "ex_csv_feb =
     \<lparr>columns = [''class'', ''ndvi'', ''latitude'', ''longitude''],
      rows =
        [mk_row [(''class'', Str ''soil''), (''ndvi'', Num 0.7), (''latitude'', Num 6), (''longitude'', Num 60)]]\<rparr>"

definition ex_fs :: filesystem where
  "ex_fs =
     \<lparr>path_exists = (\<lambda>p. p \<in> set [[DATA_DIR], csv_path ''2024-01-01'', csv_path ''2024-02-01'',
                                  health_map_path ''2024-01-01'']),
      path_isdir = (\<lambda>p. p \<in> set [[DATA_DIR], [DATA_DIR, ''2024-01-01''], [DATA_DIR, ''2024-02-01''],
                                 [DATA_DIR, ''2024-03-01'']]),
      os_listdir = (\<lambda>p. if p = [DATA_DIR]
                         then [''2024-03-01'', ''notes.txt'', ''2024-02-01'', ''2024-01-01''] else []),
      pd_read_csv = (\<lambda>p. if p = csv_path ''2024-01-01'' then ex_csv_jan else ex_csv_feb)\<rparr>"

text \<open>
  A data directory whose January file carries a \<open>health_status\<close> column of its own
  and whose February file does not.
\<close>

definition ex_csv_labelled :: frame where
  "ex_csv_labelled =
     \<lparr>columns = [''class'', ''ndvi'', ''latitude'', ''longitude'', ''health_status''],
      rows =
        [mk_row [(''class'', Str ''palm''), (''ndvi'', Num 0.9), (''latitude'', Num 1), (''longitude'', Num 10),
                 (''health_status'', Str ''Unhealthy'')],
         mk_row [(''class'', Str ''palm''), (''ndvi'', Num 0.9), (''latitude'', Num 2), (''longitude'', Num 20),
                 (''health_status'', Str ''Dead'')]]\<rparr>"

definition ex_csv_plain :: frame where
  "ex_csv_plain =
     \<lparr>columns = [''class'', ''ndvi'', ''latitude'', ''longitude''],
      rows =
        [mk_row [(''class'', Str ''palm''), (''ndvi'', Num 0.9), (''latitude'', Num 3), (''longitude'', Num 30)]]\<rparr>"

definition ex_fs_labelled :: filesystem where
  "ex_fs_labelled =
     \<lparr>path_exists = (\<lambda>p. p \<in> set [[DATA_DIR], csv_path ''2024-01-01'', csv_path ''2024-02-01'']),
      path_isdir = (\<lambda>p. p \<in> set [[DATA_DIR], [DATA_DIR, ''2024-01-01''], [DATA_DIR, ''2024-02-01'']]),
      os_listdir = (\<lambda>p. if p = [DATA_DIR] then [''2024-01-01'', ''2024-02-01''] else []),
      pd_read_csv = (\<lambda>p. if p = csv_path ''2024-01-01'' then ex_csv_labelled else ex_csv_plain)\<rparr>"


text \<open>A row of the table after the classifier has run, against the row it was computed
  from: the label of the classifier is stored under \<open>health_status\<close> and every other
  cell is kept.\<close>

definition labelled :: "string list \<Rightarrow> (string \<Rightarrow> cell) \<Rightarrow> (string \<Rightarrow> cell) \<Rightarrow> bool" where
  "labelled cols r r' \<longleftrightarrow>
     (\<exists>l. classify_health (series_of cols r) = Inr l \<and> r' = r(''health_status'' := Str l))"

text \<open>
  A table of all dates as \<open>pd.concat\<close> leaves it, before the health status is assigned,
  and the same table with the labels of the classifier.
\<close>

definition ex_nan_row :: "string \<Rightarrow> cell" where
  "ex_nan_row =
     mk_row [(''class'', Str ''palm''), (''ndvi'', NaN), (''latitude'', Num 5), (''longitude'', Num 50),
             (''__date__'', Str ''2024-01-01'')]"

definition ex_table :: frame where
  "ex_table =
     \<lparr>columns = [''class'', ''ndvi'', ''latitude'', ''longitude'', ''__date__''],
      rows =
        [mk_row [(''class'', Str ''palm''), (''ndvi'', Num 0.75), (''latitude'', Num 1), (''longitude'', Num 10), (''__date__'', Str ''2024-01-01'')],
         mk_row [(''class'', Str ''palm''), (''ndvi'', Num 0.1), (''latitude'', Num 2), (''longitude'', Num 20), (''__date__'', Str ''2024-01-01'')],
         mk_row [(''class'', Str ''palm''), (''ndvi'', Num 0.45), (''latitude'', Num 3), (''longitude'', Num 30), (''__date__'', Str ''2024-01-01'')],
         mk_row [(''class'', Str ''soil''), (''ndvi'', Num 0.2), (''latitude'', Num 4), (''longitude'', Num 40), (''__date__'', Str ''2024-01-01'')],
         ex_nan_row,
         mk_row [(''class'', Str ''soil''), (''ndvi'', Num 0.7), (''latitude'', Num 6), (''longitude'', Num 60), (''__date__'', Str ''2024-02-01'')]]\<rparr>"

definition ex_table_full :: frame where
  "ex_table_full =
     set_column_values ex_table ''health_status''
       (map Str [''Healthy'', ''Unhealthy'', ''Moderate'', ''Soil'', ''Unhealthy'', ''Soil''])"

section \<open>The classifier\<close>



lemma classify_health_nan:
  "row ''class'' = Some (Str ''palm'') \<Longrightarrow> row ''ndvi'' = Some NaN \<Longrightarrow>
   classify_health row = Inr ''Unhealthy''"
  by (simp add: classify_health_def getitem_def)



lemma classify_health_palm_range:
  assumes "row ''class'' = Some (Str ''palm'')" and "classify_health row = Inr l"
  shows "l = ''Healthy'' \<or> l = ''Moderate'' \<or> l = ''Unhealthy''"
proof (cases "row ''ndvi''")
  case None
  with assms show ?thesis by (simp add: classify_health_def getitem_def)
next
  case (Some v)
  with assms show ?thesis
    by (cases v) (auto simp: classify_health_def getitem_def split: if_splits bool.splits)
qed

lemma classify_health_cong:
  "row ''class'' = row' ''class'' \<Longrightarrow> row ''ndvi'' = row' ''ndvi'' \<Longrightarrow>
   classify_health row = classify_health row'"
  unfolding classify_health_def getitem_def by (simp cong: sum.case_cong if_cong)

section \<open>Assigning the health status\<close>

lemma apply_rows_all2:
  "apply_rows f cols rs = Inr vs \<Longrightarrow> list_all2 (\<lambda>r v. f (series_of cols r) = Inr v) rs vs"
  by (induction rs arbitrary: vs) (auto split: sum.splits)

lemma all2_zip_update:
  "list_all2 P rs ls \<Longrightarrow>
   list_all2 (\<lambda>r r'. \<exists>l. P r l \<and> r' = r(c := Str l)) rs
     (map (\<lambda>(r, v). r(c := v)) (zip rs (map Str ls)))"
  by (induction rule: list_all2_induct) auto

lemma assign_health_computed:
  assumes "''health_status'' \<notin> set (columns df)" and "assign_health df = Done full_df"
  shows "''ndvi'' \<in> set (columns df)"
    and "columns full_df = columns df @ [''health_status'']"
    and "list_all2 (labelled (columns df)) (rows df) (rows full_df)"
proof -
  from assms show ndvi: "''ndvi'' \<in> set (columns df)"
    by (auto simp: assign_health_def split: if_splits)
  with assms obtain labels where
    ap: "apply_rows classify_health (columns df) (rows df) = Inr labels" and
    full: "full_df = set_column_values df ''health_status'' (map Str labels)"
    by (auto simp: assign_health_def split: sum.splits)
  from full assms(1) show "columns full_df = columns df @ [''health_status'']"
    by (simp add: set_column_values_def)
  from all2_zip_update [OF apply_rows_all2 [OF ap], of "''health_status''"] full
  show "list_all2 (labelled (columns df)) (rows df) (rows full_df)"
    unfolding labelled_def by (simp add: set_column_values_def)
qed

lemma assign_health_persisted:
  "''health_status'' \<in> set (columns df) \<Longrightarrow> assign_health df = Done df"
  by (simp add: assign_health_def)

lemma assign_health_columns:
  assumes "assign_health df = Done full_df"
  shows "set (columns full_df) = insert ''health_status'' (set (columns df))"
proof (cases "''health_status'' \<in> set (columns df)")
  case True
  with assms show ?thesis by (auto simp: assign_health_persisted)
next
  case False
  from assign_health_computed(2) [OF False assms] show ?thesis by simp
qed

lemma labelled_keeps:
  "labelled cols r r' \<Longrightarrow> c \<noteq> ''health_status'' \<Longrightarrow> r' c = r c"
  by (auto simp: labelled_def)

lemma labelled_palm_status:
  assumes "labelled cols r r'" and "''class'' \<in> set cols" and "r' ''class'' = Str ''palm''"
  shows "r' ''health_status'' = Str ''Healthy'' \<or> r' ''health_status'' = Str ''Moderate''
       \<or> r' ''health_status'' = Str ''Unhealthy''"
proof -
  from assms(1) obtain l where
    l: "classify_health (series_of cols r) = Inr l" and r': "r' = r(''health_status'' := Str l)"
    by (auto simp: labelled_def)
  from r' assms(3) have "r ''class'' = Str ''palm''" by simp
  with assms(2) have "series_of cols r ''class'' = Some (Str ''palm'')"
    by (simp add: series_of_def)
  from classify_health_palm_range [OF this l] r' show ?thesis by auto
qed

lemma all2_right:
  "list_all2 P xs ys \<Longrightarrow> y \<in> set ys \<Longrightarrow> \<exists>x\<in>set xs. P x y"
  by (induction rule: list_all2_induct) auto

lemma all2_left:
  "list_all2 P xs ys \<Longrightarrow> x \<in> set xs \<Longrightarrow> \<exists>y\<in>set ys. P x y"
  by (induction rule: list_all2_induct) auto

section \<open>Selecting a date and counting\<close>

lemma selected_palm_eq:
  assumes "''__date__'' \<in> set (columns df)" and "''class'' \<in> set (columns df)"
  shows "selected_palm df d =
     Inr (df\<lparr>rows := filter (\<lambda>r. r ''__date__'' = Str d \<and> r ''class'' = Str ''palm'') (rows df)\<rparr>)"
proof -
  have "filter (\<lambda>r. r ''class'' = Str ''palm'') (filter (\<lambda>r. r ''__date__'' = Str d) (rows df))
      = filter (\<lambda>r. r ''__date__'' = Str d \<and> r ''class'' = Str ''palm'') (rows df)"
    by (simp add: conj_commute)
  with assms show ?thesis
    by (simp add: selected_palm_def select_eq_def andthen_def)
qed

lemma selected_palm_rows:
  assumes "selected_palm df d = Inr spdf"
  shows "rows spdf = filter (\<lambda>r. r ''__date__'' = Str d \<and> r ''class'' = Str ''palm'') (rows df)"
    and "columns spdf = columns df"
    and "''__date__'' \<in> set (columns df)" and "''class'' \<in> set (columns df)"
proof -
  from assms show d: "''__date__'' \<in> set (columns df)"
    by (auto simp: selected_palm_def select_eq_def andthen_def split: if_splits)
  with assms show c: "''class'' \<in> set (columns df)"
    by (auto simp: selected_palm_def select_eq_def andthen_def split: if_splits)
  from selected_palm_eq [OF d c, of d] assms
  show "rows spdf = filter (\<lambda>r. r ''__date__'' = Str d \<and> r ''class'' = Str ''palm'') (rows df)"
    and "columns spdf = columns df"
    by auto
qed

lemma kpis_eq:
  assumes "''health_status'' \<in> set (columns spdf)"
  shows "kpis spdf =
     Inr (length (filter (\<lambda>r. r ''health_status'' = Str ''Healthy'') (rows spdf)),
          length (filter (\<lambda>r. r ''health_status'' = Str ''Moderate'') (rows spdf)),
          length (filter (\<lambda>r. r ''health_status'' = Str ''Unhealthy'') (rows spdf)),
          length (rows spdf))"
  using assms by (simp add: kpis_def select_eq_def andthen_def shape0_def)

lemma three_way_count:
  assumes "\<forall>x\<in>set xs. f x = a \<or> f x = b \<or> f x = c" and "a \<noteq> b" and "a \<noteq> c" and "b \<noteq> c"
  shows "length (filter (\<lambda>x. f x = a) xs) + length (filter (\<lambda>x. f x = b) xs)
       + length (filter (\<lambda>x. f x = c) xs) = length xs"
  using assms by (induction xs) auto

text \<open>
  C2 (as amended). For every selected date the KPI total is the number of palm records
  of that date. When the health status is assigned by the classifier (no input file
  carries a \<open>health_status\<close> column), the Healthy, Moderate and Unhealthy counts add
  up to the total.
\<close>

theorem kpi_total_and_sum:
  assumes "assign_health df = Done full_df"
    and "''class'' \<in> set (columns df)" and "''__date__'' \<in> set (columns df)"
  shows "\<exists>spdf h m u t.
           selected_palm full_df d = Inr spdf \<and> kpis spdf = Inr (h, m, u, t) \<and>
           t = length (filter (\<lambda>r. r ''__date__'' = Str d \<and> r ''class'' = Str ''palm'') (rows full_df)) \<and>
           (''health_status'' \<notin> set (columns df) \<longrightarrow> h + m + u = t)"
proof -
  let ?palm = "filter (\<lambda>r. r ''__date__'' = Str d \<and> r ''class'' = Str ''palm'') (rows full_df)"
  let ?spdf = "full_df\<lparr>rows := ?palm\<rparr>"
  let ?n = "\<lambda>s. length (filter (\<lambda>r. r ''health_status'' = Str s) ?palm)"
  from assign_health_columns [OF assms(1)] assms(2,3)
  have cols: "''class'' \<in> set (columns full_df)" "''__date__'' \<in> set (columns full_df)"
    "''health_status'' \<in> set (columns full_df)"
    by auto
  have sel: "selected_palm full_df d = Inr ?spdf"
    using selected_palm_eq [OF cols(2) cols(1)] by simp
  have k: "kpis ?spdf = Inr (?n ''Healthy'', ?n ''Moderate'', ?n ''Unhealthy'', length ?palm)"
    using kpis_eq [of ?spdf] cols(3) by simp
  have "?n ''Healthy'' + ?n ''Moderate'' + ?n ''Unhealthy'' = length ?palm"
    if absent: "''health_status'' \<notin> set (columns df)"
  proof -
    have "\<forall>r'\<in>set ?palm. r' ''health_status'' = Str ''Healthy'' \<or> r' ''health_status'' = Str ''Moderate''
        \<or> r' ''health_status'' = Str ''Unhealthy''"
    proof
      fix r' assume "r' \<in> set ?palm"
      then have r': "r' \<in> set (rows full_df)" and palm: "r' ''class'' = Str ''palm''" by auto
      from all2_right [OF assign_health_computed(3) [OF absent assms(1)] r']
      obtain r where "labelled (columns df) r r'" by blast
      from labelled_palm_status [OF this assms(2) palm]
      show "r' ''health_status'' = Str ''Healthy'' \<or> r' ''health_status'' = Str ''Moderate''
        \<or> r' ''health_status'' = Str ''Unhealthy''" .
    qed
    from three_way_count [OF this] show ?thesis by simp
  qed
  with sel k show ?thesis by blast
qed

lemma ex_table_assign: "assign_health ex_table = Done ex_table_full"
  by (simp add: assign_health_def ex_table_def ex_table_full_def ex_nan_row_def mk_row_def
      series_of_def classify_health_def getitem_def)

theorem kpi_total_and_sum_witness:
  "assign_health ex_table = Done ex_table_full \<and>
   ''class'' \<in> set (columns ex_table) \<and> ''__date__'' \<in> set (columns ex_table) \<and>
   ''health_status'' \<notin> set (columns ex_table) \<and>
   (\<exists>spdf h m u t.
      selected_palm ex_table_full ''2024-01-01'' = Inr spdf \<and> kpis spdf = Inr (h, m, u, t) \<and>
      t = length (filter (\<lambda>r. r ''__date__'' = Str ''2024-01-01'' \<and> r ''class'' = Str ''palm'')
                    (rows ex_table_full)) \<and>
      h + m + u = t)"
proof -
  have cols: "''class'' \<in> set (columns ex_table)" "''__date__'' \<in> set (columns ex_table)"
    "''health_status'' \<notin> set (columns ex_table)"
    by (simp_all add: ex_table_def)
  from kpi_total_and_sum [OF ex_table_assign cols(1,2), of "''2024-01-01''"] cols ex_table_assign
  show ?thesis by blast
qed

text \<open>
  The claim as stated fails when an input file brings its own \<open>health_status\<close> column:
  the January file of this directory labels one palm Dead, and the three counts add up
  to 1 while the total is 2.
\<close>

theorem kpi_sum_counterexample:
  "map_outcome kpi (main ex_fs_labelled ''2024-01-01'') = Done (0, 0, 1, 2)"
  by code_simp

section \<open>The at-risk section\<close>

lemma at_risk_rows:
  assumes "at_risk spdf = Inr v"
  shows "exported v =
           map (\<lambda>r. (r ''health_status'', r ''latitude'', r ''longitude''))
             (filter (\<lambda>r. r ''health_status'' = Str ''Moderate'' \<or> r ''health_status'' = Str ''Unhealthy'')
                (rows spdf))"
    and "listing v = sort_key (\<lambda>l. cell_key (fst l)) (exported v)"
proof -
  let ?risky = "filter (\<lambda>r. r ''health_status'' = Str ''Moderate'' \<or> r ''health_status'' = Str ''Unhealthy'')
                  (rows spdf)"
  from assms have hs: "''health_status'' \<in> set (columns spdf)"
    by (auto simp: at_risk_def select_isin_def andthen_def split: if_splits)
  have both: "exported v = map (\<lambda>r. (r ''health_status'', r ''latitude'', r ''longitude'')) ?risky
      \<and> listing v = sort_key (\<lambda>l. cell_key (fst l)) (exported v)"
  proof (cases "?risky = []")
    case True
    with assms hs have "v = NoAtRisk"
      by (simp add: at_risk_def select_isin_def andthen_def)
    with True show ?thesis by simp
  next
    case False
    with assms hs show ?thesis
      by (auto simp: at_risk_def select_isin_def andthen_def project_display_def
          split: option.splits)
  qed
  from both show "exported v = map (\<lambda>r. (r ''health_status'', r ''latitude'', r ''longitude'')) ?risky"
    and "listing v = sort_key (\<lambda>l. cell_key (fst l)) (exported v)"
    by simp_all
qed

lemma at_risk_returns:
  assumes "set display_cols \<subseteq> set (columns spdf)"
  shows "\<exists>v. at_risk spdf = Inr v"
proof -
  from assms have "find (\<lambda>c. c \<notin> set (columns spdf)) display_cols = None"
    by (simp add: find_None_iff subset_iff)
  moreover from assms have "''health_status'' \<in> set (columns spdf)"
    by (simp add: display_cols_def)
  ultimately show ?thesis
    by (simp add: at_risk_def select_isin_def andthen_def project_display_def)
qed

lemma sorted_map_transfer:
  assumes "sorted (map f xs)" and "\<forall>x\<in>set xs. \<forall>y\<in>set xs. f x \<le> f y \<longrightarrow> g x \<le> g y"
  shows "sorted (map g xs)"
  using assms by (induction xs) auto

lemma sorted_labels:
  assumes "sorted (map (\<lambda>l. cell_key (fst l)) xs)" and "\<forall>l\<in>set xs. is_Str (fst l)"
  shows "\<exists>ss. map fst xs = map Str ss \<and> sorted ss"
proof -
  define g where "g = (\<lambda>c. case c of Str s \<Rightarrow> s | _ \<Rightarrow> [])"
  have key: "cell_key c = (3, 0, g c)" and str: "Str (g c) = c" if "is_Str c" for c
    using that by (cases c; simp add: g_def)+
  have "sorted (map (\<lambda>l. g (fst l)) xs)"
  proof (rule sorted_map_transfer [OF assms(1)], intro ballI impI)
    fix x y assume "x \<in> set xs" "y \<in> set xs" "cell_key (fst x) \<le> cell_key (fst y)"
    with assms(2) key [of "fst x"] key [of "fst y"] show "g (fst x) \<le> g (fst y)"
      by simp
  qed
  moreover have "map fst xs = map Str (map (\<lambda>l. g (fst l)) xs)"
    using assms(2) str by (simp add: comp_def)
  ultimately show ?thesis by blast
qed

text \<open>
  C3. For every selected date the at-risk listing holds exactly the palm records of
  that date whose health status is Moderate or Unhealthy, each projected to
  (health_status, latitude, longitude), and its rows are in ascending order of
  health_status. The listing is produced whenever the table has the three columns.
\<close>

theorem at_risk_listing_exact_sorted:
  assumes "selected_palm full_df d = Inr spdf"
  shows "(\<forall>v. at_risk spdf = Inr v \<longrightarrow>
            mset (listing v) =
              mset (map (\<lambda>r. (r ''health_status'', r ''latitude'', r ''longitude''))
                     (filter (\<lambda>r. r ''__date__'' = Str d \<and> r ''class'' = Str ''palm'' \<and>
                                 (r ''health_status'' = Str ''Moderate'' \<or>
                                  r ''health_status'' = Str ''Unhealthy''))
                        (rows full_df))) \<and>
            (\<exists>ss. map fst (listing v) = map Str ss \<and> sorted ss)) \<and>
         (set display_cols \<subseteq> set (columns full_df) \<longrightarrow> (\<exists>v. at_risk spdf = Inr v))"
proof (intro conjI allI impI)
  fix v assume v: "at_risk spdf = Inr v"
  note r = at_risk_rows [OF v]
  have "filter (\<lambda>r. r ''health_status'' = Str ''Moderate'' \<or> r ''health_status'' = Str ''Unhealthy'')
          (rows spdf)
      = filter (\<lambda>r. r ''__date__'' = Str d \<and> r ''class'' = Str ''palm'' \<and>
                    (r ''health_status'' = Str ''Moderate'' \<or> r ''health_status'' = Str ''Unhealthy''))
          (rows full_df)"
    by (simp add: selected_palm_rows(1) [OF assms] conj_commute conj_left_commute)
  with r show "mset (listing v) =
      mset (map (\<lambda>r. (r ''health_status'', r ''latitude'', r ''longitude''))
             (filter (\<lambda>r. r ''__date__'' = Str d \<and> r ''class'' = Str ''palm'' \<and>
                         (r ''health_status'' = Str ''Moderate'' \<or>
                          r ''health_status'' = Str ''Unhealthy''))
                (rows full_df)))"
    by simp
  have "sorted (map (\<lambda>l. cell_key (fst l)) (listing v))"
    by (simp add: r(2))
  moreover have "\<forall>l\<in>set (listing v). is_Str (fst l)"
    by (auto simp: r)
  ultimately show "\<exists>ss. map fst (listing v) = map Str ss \<and> sorted ss"
    by (rule sorted_labels)
next
  assume "set display_cols \<subseteq> set (columns full_df)"
  then show "\<exists>v. at_risk spdf = Inr v"
    by (simp add: at_risk_returns selected_palm_rows(2) [OF assms])
qed

lemma ex_table_full_columns:
  "columns ex_table_full =
     [''class'', ''ndvi'', ''latitude'', ''longitude'', ''__date__'', ''health_status'']"
  by (simp add: ex_table_full_def ex_table_def set_column_values_def)

lemma ex_table_selected:
  "selected_palm ex_table_full d =
     Inr (ex_table_full\<lparr>rows := filter (\<lambda>r. r ''__date__'' = Str d \<and> r ''class'' = Str ''palm'')
                                     (rows ex_table_full)\<rparr>)"
  by (rule selected_palm_eq) (simp_all add: ex_table_full_columns)

theorem at_risk_listing_exact_sorted_witness:
  "\<exists>spdf v. selected_palm ex_table_full ''2024-01-01'' = Inr spdf \<and> at_risk spdf = Inr v \<and>
     mset (listing v) =
       mset (map (\<lambda>r. (r ''health_status'', r ''latitude'', r ''longitude''))
              (filter (\<lambda>r. r ''__date__'' = Str ''2024-01-01'' \<and> r ''class'' = Str ''palm'' \<and>
                          (r ''health_status'' = Str ''Moderate'' \<or>
                           r ''health_status'' = Str ''Unhealthy''))
                 (rows ex_table_full))) \<and>
     (\<exists>ss. map fst (listing v) = map Str ss \<and> sorted ss)"
proof -
  have "set display_cols \<subseteq> set (columns ex_table_full)"
    by (simp add: display_cols_def ex_table_full_columns)
  with at_risk_listing_exact_sorted [OF ex_table_selected [of "''2024-01-01''"]] ex_table_selected
  show ?thesis by blast
qed




text \<open>
  C10. A palm record whose NDVI is missing (NaN) is classified Unhealthy. When the
  classifier assigns the health status, such a record of the selected date is among the
  rows counted as Unhealthy and its location is in the at-risk listing.
\<close>

theorem nan_ndvi_palm_unhealthy:
  "(row ''class'' = Some (Str ''palm'') \<and> row ''ndvi'' = Some NaN \<longrightarrow>
      classify_health row = Inr ''Unhealthy'') \<and>
   (assign_health df = Done full_df \<and> ''health_status'' \<notin> set (columns df) \<and>
    ''class'' \<in> set (columns df) \<and> ''__date__'' \<in> set (columns df) \<and>
    r \<in> set (rows df) \<and> r ''class'' = Str ''palm'' \<and> r ''ndvi'' = NaN \<and> r ''__date__'' = Str d \<longrightarrow>
      (\<exists>spdf udf.
         selected_palm full_df d = Inr spdf \<and>
         select_eq spdf ''health_status'' ''Unhealthy'' = Inr udf \<and>
         r(''health_status'' := Str ''Unhealthy'') \<in> set (rows udf) \<and>
         (\<forall>v. at_risk spdf = Inr v \<longrightarrow>
            (Str ''Unhealthy'', r ''latitude'', r ''longitude'') \<in> set (listing v))))"
proof (intro conjI impI; (elim conjE)?)
  assume "row ''class'' = Some (Str ''palm'')" "row ''ndvi'' = Some NaN"
  then show "classify_health row = Inr ''Unhealthy''" by (rule classify_health_nan)
next
  assume dn: "assign_health df = Done full_df"
    and absent: "''health_status'' \<notin> set (columns df)"
    and cls: "''class'' \<in> set (columns df)" and dat: "''__date__'' \<in> set (columns df)"
    and r: "r \<in> set (rows df)" "r ''class'' = Str ''palm''" "r ''ndvi'' = NaN" "r ''__date__'' = Str d"
  let ?r' = "r(''health_status'' := Str ''Unhealthy'')"
  let ?spdf = "full_df\<lparr>rows := filter (\<lambda>r. r ''__date__'' = Str d \<and> r ''class'' = Str ''palm'') (rows full_df)\<rparr>"
  let ?udf = "?spdf\<lparr>rows := filter (\<lambda>r. r ''health_status'' = Str ''Unhealthy'') (rows ?spdf)\<rparr>"
  note comp = assign_health_computed [OF absent dn]
  from assign_health_columns [OF dn] cls dat
  have cols: "''class'' \<in> set (columns full_df)" "''__date__'' \<in> set (columns full_df)"
    "''health_status'' \<in> set (columns full_df)"
    by auto
  from all2_left [OF comp(3) r(1)] obtain r' where
    r': "r' \<in> set (rows full_df)" and lab: "labelled (columns df) r r'" by blast
  have "classify_health (series_of (columns df) r) = Inr ''Unhealthy''"
    using cls comp(1) r(2,3) by (intro classify_health_nan) (simp_all add: series_of_def)
  with lab have r'_eq: "r' = ?r'" by (auto simp: labelled_def)
  have sel: "selected_palm full_df d = Inr ?spdf"
    using selected_palm_eq [OF cols(2) cols(1)] by simp
  have udf: "select_eq ?spdf ''health_status'' ''Unhealthy'' = Inr ?udf"
    using cols(3) by (simp add: select_eq_def)
  have in_spdf: "?r' \<in> set (rows ?spdf)"
    using r' r'_eq r(2,4) by simp
  then have in_udf: "?r' \<in> set (rows ?udf)" by simp
  have "(Str ''Unhealthy'', r ''latitude'', r ''longitude'') \<in> set (listing v)"
    if v: "at_risk ?spdf = Inr v" for v
  proof -
    note rows = at_risk_rows [OF v]
    have "(Str ''Unhealthy'', r ''latitude'', r ''longitude'') \<in> set (exported v)"
      unfolding rows(1) using in_spdf by (auto intro!: image_eqI [where x = "?r'"])
    then show ?thesis by (simp add: rows(2))
  qed
  with sel udf in_udf
  show "\<exists>spdf udf.
         selected_palm full_df d = Inr spdf \<and>
         select_eq spdf ''health_status'' ''Unhealthy'' = Inr udf \<and>
         r(''health_status'' := Str ''Unhealthy'') \<in> set (rows udf) \<and>
         (\<forall>v. at_risk spdf = Inr v \<longrightarrow>
            (Str ''Unhealthy'', r ''latitude'', r ''longitude'') \<in> set (listing v))"
    by blast
qed

theorem nan_ndvi_palm_unhealthy_witness:
  "classify_health [''class'' \<mapsto> Str ''palm'', ''ndvi'' \<mapsto> NaN] = Inr ''Unhealthy'' \<and>
   assign_health ex_table = Done ex_table_full \<and> ''health_status'' \<notin> set (columns ex_table) \<and>
   ex_nan_row \<in> set (rows ex_table) \<and> ex_nan_row ''class'' = Str ''palm'' \<and>
   ex_nan_row ''ndvi'' = NaN \<and> ex_nan_row ''__date__'' = Str ''2024-01-01'' \<and>
   (\<exists>spdf udf v.
      selected_palm ex_table_full ''2024-01-01'' = Inr spdf \<and>
      select_eq spdf ''health_status'' ''Unhealthy'' = Inr udf \<and>
      ex_nan_row(''health_status'' := Str ''Unhealthy'') \<in> set (rows udf) \<and>
      at_risk spdf = Inr v \<and> (Str ''Unhealthy'', Num 5, Num 50) \<in> set (listing v))"
proof -
  have row: "ex_nan_row \<in> set (rows ex_table)" "ex_nan_row ''class'' = Str ''palm''"
    "ex_nan_row ''ndvi'' = NaN" "ex_nan_row ''__date__'' = Str ''2024-01-01''"
    "ex_nan_row ''latitude'' = Num 5" "ex_nan_row ''longitude'' = Num 50"
    by (simp_all add: ex_table_def ex_nan_row_def mk_row_def)
  have cols: "''health_status'' \<notin> set (columns ex_table)" "''class'' \<in> set (columns ex_table)"
    "''__date__'' \<in> set (columns ex_table)"
    by (simp_all add: ex_table_def)
  note inst = nan_ndvi_palm_unhealthy
    [where row = "[''class'' \<mapsto> Str ''palm'', ''ndvi'' \<mapsto> NaN]" and df = ex_table
       and full_df = ex_table_full and r = ex_nan_row and d = "''2024-01-01''"]
  from inst have first: "classify_health [''class'' \<mapsto> Str ''palm'', ''ndvi'' \<mapsto> NaN] = Inr ''Unhealthy''"
    by simp
  from inst ex_table_assign cols row obtain spdf udf where
    s: "selected_palm ex_table_full ''2024-01-01'' = Inr spdf"
      "select_eq spdf ''health_status'' ''Unhealthy'' = Inr udf"
      "ex_nan_row(''health_status'' := Str ''Unhealthy'') \<in> set (rows udf)" and
    a: "\<forall>v. at_risk spdf = Inr v \<longrightarrow>
          (Str ''Unhealthy'', ex_nan_row ''latitude'', ex_nan_row ''longitude'') \<in> set (listing v)"
    by blast
  have "set display_cols \<subseteq> set (columns spdf)"
    by (simp add: selected_palm_rows(2) [OF s(1)] display_cols_def ex_table_full_columns)
  from at_risk_returns [OF this] obtain v where v: "at_risk spdf = Inr v" ..
  with a row(5,6) have "(Str ''Unhealthy'', Num 5, Num 50) \<in> set (listing v)" by simp
  with first ex_table_assign cols(1) row(1-4) s v show ?thesis by blast
qed

section \<open>Scanning and loading\<close>





lemma load_data_None_iff:
  "load_data fs d = Inr None \<longleftrightarrow> \<not> path_exists fs (csv_path d)"
  by (auto simp: load_data_def csv_path_def Let_def split: sum.splits)

lemma load_data_present:
  assumes "path_exists fs (csv_path d)"
    and "df = rename_columns normalize_name (pd_read_csv fs (csv_path d))"
    and "''class'' \<in> set (columns df) \<longrightarrow> object_dtype df ''class''"
  shows "load_data fs d =
     Inr (Some (set_column
       (if ''class'' \<in> set (columns df)
        then df\<lparr>rows := map (\<lambda>r. r(''class'' := lower_cell (r ''class''))) (rows df)\<rparr> else df)
       ''__date__'' (Str d)))"
  using assms by (simp add: load_data_def csv_path_def Let_def str_lower_column_def)

lemma load_data_tag:
  assumes "load_data fs d = Inr (Some df)"
  shows "''__date__'' \<in> set (columns df)" and "\<forall>r\<in>set (rows df). r ''__date__'' = Str d"
  using assms
  by (auto simp: load_data_def Let_def set_column_def str_lower_column_def
      split: if_splits sum.splits)







lemma ex_csv_jan_text: "object_dtype (rename_columns normalize_name ex_csv_jan) ''class''"
  by code_simp


section \<open>Halting\<close>











section \<open>The time series\<close>

lemma count_list_map: "count_list (map f xs) y = length (filter (\<lambda>x. f x = y) xs)"
  by (induction xs) auto

lemma map_of_graph:
  "map_of (map (\<lambda>k. (k, f k)) ks) k = (if k \<in> set ks then Some (f k) else None)"
  by (induction ks) auto

lemma lookup_count:
  "(case map_of (map (\<lambda>k. (k, count_list keys k)) (sort_key g (remdups keys))) k of
      Some n \<Rightarrow> n | None \<Rightarrow> 0) = count_list keys k"
  by (simp add: map_of_graph count_list_0_iff)

text \<open>The keys of the groups: date and health status of the palm rows that have both.\<close>

lemma time_series_parts:
  assumes "time_series full_df = Inr ts"
    and "keys = map (\<lambda>r. (r ''__date__'', r ''health_status''))
                 (filter (\<lambda>r. r ''__date__'' \<noteq> NaN \<and> r ''health_status'' \<noteq> NaN)
                    (filter (\<lambda>r. r ''class'' = Str ''palm'') (rows full_df)))"
  shows "set (pindex ts) = fst ` set keys" and "distinct (pindex ts)"
    and "set (pcolumns ts) = snd ` set keys" and "distinct (pcolumns ts)"
    and "pdata ts = map (\<lambda>d. map (\<lambda>b. count_list keys (d, b)) (pcolumns ts)) (pindex ts)"
proof -
  let ?ks = "sort_key (\<lambda>k. (cell_key (fst k), cell_key (snd k))) (remdups keys)"
  let ?sizes = "map (\<lambda>k. (k, count_list keys k)) ?ks"
  from assms(1) have c: "''class'' \<in> set (columns full_df)"
    by (auto simp: time_series_def select_eq_def andthen_def split: if_splits)
  with assms(1) have d: "''__date__'' \<in> set (columns full_df)"
    by (auto simp: time_series_def select_eq_def group_sizes_def andthen_def split: if_splits)
  with assms(1) c have h: "''health_status'' \<in> set (columns full_df)"
    by (auto simp: time_series_def select_eq_def group_sizes_def andthen_def split: if_splits)
  from assms c d h have ts: "ts = unstack ?sizes"
    by (simp add: time_series_def select_eq_def group_sizes_def andthen_def Let_def)
  have fst_sizes: "map (\<lambda>e. fst (fst e)) ?sizes = map fst ?ks"
    and snd_sizes: "map (\<lambda>e. snd (fst e)) ?sizes = map snd ?ks"
    by (simp_all add: comp_def)
  show "set (pindex ts) = fst ` set keys" and "distinct (pindex ts)"
    and "set (pcolumns ts) = snd ` set keys" and "distinct (pcolumns ts)"
    unfolding ts unstack_def Let_def fst_sizes snd_sizes by simp_all
  show "pdata ts = map (\<lambda>d. map (\<lambda>b. count_list keys (d, b)) (pcolumns ts)) (pindex ts)"
    unfolding ts unstack_def Let_def by (simp add: lookup_count)
qed

lemma time_series_returns:
  assumes "''class'' \<in> set (columns full_df)" and "''__date__'' \<in> set (columns full_df)"
    and "''health_status'' \<in> set (columns full_df)"
  shows "\<exists>ts. time_series full_df = Inr ts"
  using assms by (simp add: time_series_def select_eq_def group_sizes_def andthen_def Let_def)

lemma pivot_at_table:
  assumes "pdata ts = map (\<lambda>d. map (\<lambda>b. f d b) (pcolumns ts)) (pindex ts)"
    and "d \<in> set (pindex ts)" and "b \<in> set (pcolumns ts)"
  shows "pivot_at ts d b = Some (f d b)"
  using assms by (simp add: pivot_at_def map_of_zip_map)

text \<open>
  C5 (as amended). The time-series table has one row for every date that has a palm
  record with a health status, one column for every health status found on such a
  record, and under every such date and status the number of palm records with that
  date and status: zero where there is none, never a missing entry. Dates without a
  palm record have no row, and a status found only on records that are not palms has no
  column. The table is produced whenever the columns \<open>class\<close>, \<open>__date__\<close> and
  \<open>health_status\<close> exist.
\<close>

theorem time_series_table:
  "(\<forall>ts. time_series full_df = Inr ts \<longrightarrow>
      distinct (pindex ts) \<and> distinct (pcolumns ts) \<and>
      set (pindex ts) =
        (\<lambda>r. r ''__date__'') `
          {r \<in> set (rows full_df). r ''class'' = Str ''palm'' \<and> r ''__date__'' \<noteq> NaN \<and>
                                    r ''health_status'' \<noteq> NaN} \<and>
      set (pcolumns ts) =
        (\<lambda>r. r ''health_status'') `
          {r \<in> set (rows full_df). r ''class'' = Str ''palm'' \<and> r ''__date__'' \<noteq> NaN \<and>
                                    r ''health_status'' \<noteq> NaN} \<and>
      (\<forall>d\<in>set (pindex ts). \<forall>b\<in>set (pcolumns ts).
         pivot_at ts d b =
           Some (length (filter (\<lambda>r. r ''class'' = Str ''palm'' \<and> r ''__date__'' = d \<and>
                                     r ''health_status'' = b) (rows full_df))))) \<and>
   (''class'' \<in> set (columns full_df) \<and> ''__date__'' \<in> set (columns full_df) \<and>
    ''health_status'' \<in> set (columns full_df) \<longrightarrow> (\<exists>ts. time_series full_df = Inr ts))"
proof (intro conjI allI impI ballI; (elim conjE)?)
  fix ts assume ts: "time_series full_df = Inr ts"
  define keys where "keys = map (\<lambda>r. (r ''__date__'', r ''health_status''))
                 (filter (\<lambda>r. r ''__date__'' \<noteq> NaN \<and> r ''health_status'' \<noteq> NaN)
                    (filter (\<lambda>r. r ''class'' = Str ''palm'') (rows full_df)))"
  note p = time_series_parts [OF ts keys_def]
  show "distinct (pindex ts)" and "distinct (pcolumns ts)" by (rule p)+
  show "set (pindex ts) =
        (\<lambda>r. r ''__date__'') `
          {r \<in> set (rows full_df). r ''class'' = Str ''palm'' \<and> r ''__date__'' \<noteq> NaN \<and>
                                    r ''health_status'' \<noteq> NaN}"
    unfolding p(1) keys_def by force
  show "set (pcolumns ts) =
        (\<lambda>r. r ''health_status'') `
          {r \<in> set (rows full_df). r ''class'' = Str ''palm'' \<and> r ''__date__'' \<noteq> NaN \<and>
                                    r ''health_status'' \<noteq> NaN}"
    unfolding p(3) keys_def by force
  fix d b assume d: "d \<in> set (pindex ts)" and b: "b \<in> set (pcolumns ts)"
  from d have dn: "d \<noteq> NaN" unfolding p(1) keys_def by auto
  from b have bn: "b \<noteq> NaN" unfolding p(3) keys_def by auto
  have "count_list keys (d, b) =
      length (filter (\<lambda>r. r ''class'' = Str ''palm'' \<and> r ''__date__'' = d \<and>
                           r ''health_status'' = b) (rows full_df))"
    unfolding keys_def count_list_map filter_filter
    by (rule arg_cong [where f = length], rule filter_cong) (use dn bn in auto)
  with pivot_at_table [OF p(5) d b]
  show "pivot_at ts d b =
           Some (length (filter (\<lambda>r. r ''class'' = Str ''palm'' \<and> r ''__date__'' = d \<and>
                                     r ''health_status'' = b) (rows full_df)))"
    by simp
next
  assume "''class'' \<in> set (columns full_df)" "''__date__'' \<in> set (columns full_df)"
    "''health_status'' \<in> set (columns full_df)"
  then show "\<exists>ts. time_series full_df = Inr ts" by (rule time_series_returns)
qed

lemma ex_table_trend:
  "case time_series ex_table_full of
     Inr ts \<Rightarrow> pindex ts = [Str ''2024-01-01''] \<and>
               pcolumns ts = [Str ''Healthy'', Str ''Moderate'', Str ''Unhealthy''] \<and>
               pdata ts = [[1, 1, 2]]
   | Inl e \<Rightarrow> False"
  by code_simp

theorem time_series_table_witness:
  "\<exists>ts. time_series ex_table_full = Inr ts \<and>
     pindex ts = [Str ''2024-01-01''] \<and>
     pcolumns ts = [Str ''Healthy'', Str ''Moderate'', Str ''Unhealthy''] \<and>
     pdata ts = [[1, 1, 2]] \<and>
     pivot_at ts (Str ''2024-01-01'') (Str ''Unhealthy'') =
       Some (length (filter (\<lambda>r. r ''class'' = Str ''palm'' \<and> r ''__date__'' = Str ''2024-01-01'' \<and>
                                 r ''health_status'' = Str ''Unhealthy'') (rows ex_table_full)))"
proof -
  from ex_table_trend obtain ts where ts: "time_series ex_table_full = Inr ts"
    and v: "pindex ts = [Str ''2024-01-01'']"
      "pcolumns ts = [Str ''Healthy'', Str ''Moderate'', Str ''Unhealthy'']" "pdata ts = [[1, 1, 2]]"
    by (auto split: sum.splits)
  from time_series_table [of ex_table_full, THEN conjunct1, rule_format, OF ts] v
  have "pivot_at ts (Str ''2024-01-01'') (Str ''Unhealthy'') =
       Some (length (filter (\<lambda>r. r ''class'' = Str ''palm'' \<and> r ''__date__'' = Str ''2024-01-01'' \<and>
                                 r ''health_status'' = Str ''Unhealthy'') (rows ex_table_full)))"
    by simp
  with ts v show ?thesis by blast
qed

text \<open>
  The claim as stated fails for a date without palm records. The example directory has
  records for January and February and the label Soil occurs in its table, but February
  holds soil only: the time series has the one row of January and no Soil column.
\<close>

theorem time_series_rows_counterexample:
  "map_outcome (\<lambda>(all_dates, full_df).
       (remdups (map (\<lambda>r. r ''__date__'') (rows full_df)),
        remdups (map (\<lambda>r. r ''health_status'') (rows full_df)))) (prepare ex_fs)
     = Done ([Str ''2024-01-01'', Str ''2024-02-01''],
             [Str ''Healthy'', Str ''Moderate'', Str ''Unhealthy'', Str ''Soil'']) \<and>
   map_outcome (\<lambda>d. (pindex (trend d), pcolumns (trend d))) (main ex_fs ''2024-01-01'')
     = Done ([Str ''2024-01-01''], [Str ''Healthy'', Str ''Moderate'', Str ''Unhealthy''])"
  by code_simp

section \<open>Date partitions\<close>

lemma prepare_Done:
  assumes "prepare fs = Done (all_dates, full_df)"
  shows "all_dates = get_all_dates fs"
    and "\<exists>all_data. load_all fs all_dates = Inr all_data \<and> all_data \<noteq> [] \<and>
           assign_health (pd_concat all_data) = Done full_df"
  using assms
  by (auto simp: prepare_def Let_def split: if_splits sum.splits outcome.splits)

lemma load_all_members:
  "load_all fs ds = Inr dfs \<Longrightarrow>
   df \<in> set dfs \<longleftrightarrow> (\<exists>d\<in>set ds. load_data fs d = Inr (Some df))"
  by (induction ds arbitrary: dfs) (auto split: sum.splits option.splits)

lemma set_union_columns: "set (union_columns css) = (\<Union>cs\<in>set css. set cs)"
  by (induction css) auto

lemma pd_concat_columns: "set (columns (pd_concat dfs)) = (\<Union>df\<in>set dfs. set (columns df))"
  by (simp add: pd_concat_def set_union_columns)

lemma pd_concat_rows_Cons:
  "rows (pd_concat (df # dfs)) = map (reindex (columns df)) (rows df) @ rows (pd_concat dfs)"
  by (simp add: pd_concat_def)

lemma block_select:
  assumes "load_data fs d' = Inr (Some df)"
  shows "filter (\<lambda>r. r ''__date__'' = Str d) (map (reindex (columns df)) (rows df)) =
           (if d' = d then map (reindex (columns df)) (rows df) else [])"
proof -
  note tag = load_data_tag [OF assms]
  have "reindex (columns df) r ''__date__'' = Str d'" if "r \<in> set (rows df)" for r
    using tag that by (simp add: reindex_def)
  then show ?thesis by (auto simp: filter_empty_conv filter_id_conv)
qed

lemma select_date_concat:
  assumes "distinct ds" and "load_all fs ds = Inr dfs"
  shows "filter (\<lambda>r. r ''__date__'' = Str d) (rows (pd_concat dfs)) =
           (case load_data fs d of
              Inr (Some df) \<Rightarrow> if d \<in> set ds then map (reindex (columns df)) (rows df) else []
            | _ \<Rightarrow> [])"
  using assms
proof (induction ds arbitrary: dfs)
  case Nil
  then show ?case by (simp add: pd_concat_def split: sum.splits option.splits)
next
  case (Cons d' ds)
  from Cons.prems(1) have dist: "distinct ds" and fresh: "d' \<notin> set ds" by simp_all
  show ?case
  proof (cases "load_data fs d'")
    case (Inl e)
    with Cons.prems(2) show ?thesis by simp
  next
    case (Inr res)
    show ?thesis
    proof (cases res)
      case None
      with Inr Cons.prems(2) have "load_all fs ds = Inr dfs" by simp
      from Cons.IH [OF dist this] Inr None show ?thesis
        by (auto split: sum.splits option.splits)
    next
      case (Some df')
      with Inr Cons.prems(2) obtain dfs' where
        dfs: "dfs = df' # dfs'" and rest: "load_all fs ds = Inr dfs'"
        by (auto split: sum.splits)
      from Inr Some have ld: "load_data fs d' = Inr (Some df')" by simp
      show ?thesis
        unfolding dfs pd_concat_rows_Cons filter_append block_select [OF ld] Cons.IH [OF dist rest]
        using ld fresh by (auto split: sum.splits option.splits)
    qed
  qed
qed

lemma assign_health_rows:
  assumes "assign_health df = Done full_df"
  shows "list_all2 (\<lambda>r r'. \<forall>c. c \<noteq> ''health_status'' \<longrightarrow> r' c = r c) (rows df) (rows full_df)"
proof (cases "''health_status'' \<in> set (columns df)")
  case True
  with assms have "full_df = df" by (simp add: assign_health_persisted)
  then show ?thesis by (simp add: list_all2_refl)
next
  case False
  from assign_health_computed(3) [OF False assms] show ?thesis
    by (rule list_all2_mono) (simp add: labelled_keeps)
qed

lemma list_all2_filter_same:
  assumes "list_all2 R xs ys" and "\<And>x y. R x y \<Longrightarrow> P x = Q y"
  shows "list_all2 R (filter P xs) (filter Q ys)"
  using assms by (induction rule: list_all2_induct) auto

lemma get_all_dates_distinct:
  "distinct (os_listdir fs [DATA_DIR]) \<Longrightarrow> distinct (get_all_dates fs)"
  by (simp add: get_all_dates_def)

lemma labelled_pure:
  assumes "labelled cols r r'" and "''ndvi'' \<in> set cols"
  shows "\<exists>l. r' ''health_status'' = Str l \<and>
             classify_health [''class'' \<mapsto> r' ''class'', ''ndvi'' \<mapsto> r' ''ndvi''] = Inr l"
proof -
  from assms(1) obtain l where
    l: "classify_health (series_of cols r) = Inr l" and r': "r' = r(''health_status'' := Str l)"
    by (auto simp: labelled_def)
  have cls: "''class'' \<in> set cols"
  proof (rule ccontr)
    assume "''class'' \<notin> set cols"
    with l show False by (simp add: classify_health_def getitem_def series_of_def)
  qed
  have "classify_health [''class'' \<mapsto> r' ''class'', ''ndvi'' \<mapsto> r' ''ndvi'']
      = classify_health (series_of cols r)"
    by (rule classify_health_cong) (simp_all add: r' series_of_def cls assms(2))
  with l r' show ?thesis by simp
qed

text \<open>
  C6 (as amended). Every record of the table of all dates carries the name of the dated
  folder it was read from, and selecting a date yields exactly the records loaded from
  that folder, in order and cell for cell (the health status column apart); a date
  without a CSV file yields none. When no input file carries a \<open>health_status\<close> column,
  the health status of every record is the label the classifier gives to its \<open>class\<close>
  and \<open>ndvi\<close> cells alone. When some input file carries the column, the column is kept
  as it was read and nothing is recomputed.
\<close>

theorem date_partitions_and_computed_status:
  assumes "prepare fs = Done (all_dates, full_df)" and "distinct (os_listdir fs [DATA_DIR])"
  shows "(\<forall>d df. d \<in> set all_dates \<and> load_data fs d = Inr (Some df) \<longrightarrow>
            (\<forall>r\<in>set (rows df). r ''__date__'' = Str d) \<and>
            (\<exists>sel. select_eq full_df ''__date__'' d = Inr sel \<and>
               list_all2 (\<lambda>r r'. \<forall>c\<in>set (columns df). c \<noteq> ''health_status'' \<longrightarrow> r' c = r c)
                 (rows df) (rows sel))) \<and>
         (\<forall>d. load_data fs d = Inr None \<longrightarrow>
            (\<exists>sel. select_eq full_df ''__date__'' d = Inr sel \<and> rows sel = [])) \<and>
         (\<forall>r\<in>set (rows full_df). \<exists>d\<in>set all_dates. r ''__date__'' = Str d) \<and>
         ((\<forall>d df. d \<in> set all_dates \<and> load_data fs d = Inr (Some df) \<longrightarrow>
              ''health_status'' \<notin> set (columns df)) \<longrightarrow>
            (\<forall>r\<in>set (rows full_df). \<exists>l. r ''health_status'' = Str l \<and>
               classify_health [''class'' \<mapsto> r ''class'', ''ndvi'' \<mapsto> r ''ndvi''] = Inr l)) \<and>
         ((\<exists>d df. d \<in> set all_dates \<and> load_data fs d = Inr (Some df) \<and>
              ''health_status'' \<in> set (columns df)) \<longrightarrow>
            (\<exists>all_data. load_all fs all_dates = Inr all_data \<and> full_df = pd_concat all_data))"
proof -
  from prepare_Done [OF assms(1)] obtain all_data where
    dates: "all_dates = get_all_dates fs" and
    la: "load_all fs all_dates = Inr all_data" and ne: "all_data \<noteq> []" and
    ah: "assign_health (pd_concat all_data) = Done full_df"
    by blast
  let ?df = "pd_concat all_data"
  from get_all_dates_distinct [OF assms(2)] dates have dist: "distinct all_dates" by simp
  note mem = load_all_members [OF la]
  from ne obtain df0 where "df0 \<in> set all_data" by (cases all_data) auto
  with mem load_data_tag(1) have "''__date__'' \<in> set (columns ?df)"
    by (fastforce simp: pd_concat_columns)
  with assign_health_columns [OF ah] have dcol: "''__date__'' \<in> set (columns full_df)" by simp
  have sel_eq: "select_eq full_df ''__date__'' d =
      Inr (full_df\<lparr>rows := filter (\<lambda>r. r ''__date__'' = Str d) (rows full_df)\<rparr>)" for d
    using dcol by (simp add: select_eq_def)
  have rel: "list_all2 (\<lambda>r r'. \<forall>c. c \<noteq> ''health_status'' \<longrightarrow> r' c = r c)
      (filter (\<lambda>r. r ''__date__'' = Str d) (rows ?df))
      (filter (\<lambda>r. r ''__date__'' = Str d) (rows full_df))" for d
    by (rule list_all2_filter_same [OF assign_health_rows [OF ah]]) simp
  have part1: "(\<forall>r\<in>set (rows df). r ''__date__'' = Str d) \<and>
            (\<exists>sel. select_eq full_df ''__date__'' d = Inr sel \<and>
               list_all2 (\<lambda>r r'. \<forall>c\<in>set (columns df). c \<noteq> ''health_status'' \<longrightarrow> r' c = r c)
                 (rows df) (rows sel))"
    if d: "d \<in> set all_dates" and ld: "load_data fs d = Inr (Some df)" for d df
  proof -
    from select_date_concat [OF dist la, of d] d ld
    have "filter (\<lambda>r. r ''__date__'' = Str d) (rows ?df) = map (reindex (columns df)) (rows df)"
      by simp
    with rel [of d]
    have "list_all2 (\<lambda>r r'. \<forall>c. c \<noteq> ''health_status'' \<longrightarrow> r' c = reindex (columns df) r c)
      (rows df) (filter (\<lambda>r. r ''__date__'' = Str d) (rows full_df))"
      by (simp add: list_all2_map1)
    then have "list_all2 (\<lambda>r r'. \<forall>c\<in>set (columns df). c \<noteq> ''health_status'' \<longrightarrow> r' c = r c)
      (rows df) (filter (\<lambda>r. r ''__date__'' = Str d) (rows full_df))"
      by (rule list_all2_mono) (simp add: reindex_def)
    with load_data_tag(2) [OF ld] sel_eq [of d] show ?thesis by simp
  qed
  have part2: "\<exists>sel. select_eq full_df ''__date__'' d = Inr sel \<and> rows sel = []"
    if "load_data fs d = Inr None" for d
  proof -
    from select_date_concat [OF dist la, of d] that
    have "filter (\<lambda>r. r ''__date__'' = Str d) (rows ?df) = []" by simp
    with rel [of d] sel_eq [of d] show ?thesis by simp
  qed
  have part3: "\<exists>d\<in>set all_dates. r' ''__date__'' = Str d" if r': "r' \<in> set (rows full_df)" for r'
  proof -
    from all2_right [OF assign_health_rows [OF ah] r'] obtain r where
      r: "r \<in> set (rows ?df)" and same: "r' ''__date__'' = r ''__date__''" by auto
    from r obtain df r0 where df: "df \<in> set all_data" and r0: "r0 \<in> set (rows df)"
      and req: "r = reindex (columns df) r0"
      by (auto simp: pd_concat_def)
    from df mem obtain d where d: "d \<in> set all_dates" and ld: "load_data fs d = Inr (Some df)"
      by auto
    from load_data_tag [OF ld] r0 req have "r ''__date__'' = Str d" by (simp add: reindex_def)
    with same d show ?thesis by auto
  qed
  have part4: "\<exists>l. r' ''health_status'' = Str l \<and>
               classify_health [''class'' \<mapsto> r' ''class'', ''ndvi'' \<mapsto> r' ''ndvi''] = Inr l"
    if none: "\<forall>d df. d \<in> set all_dates \<and> load_data fs d = Inr (Some df) \<longrightarrow>
              ''health_status'' \<notin> set (columns df)"
      and r': "r' \<in> set (rows full_df)" for r'
  proof -
    from none mem have absent: "''health_status'' \<notin> set (columns ?df)"
      by (auto simp: pd_concat_columns)
    note comp = assign_health_computed [OF absent ah]
    from all2_right [OF comp(3) r'] obtain r where "labelled (columns ?df) r r'" by blast
    from labelled_pure [OF this comp(1)] show ?thesis .
  qed
  have part5: "\<exists>all_data. load_all fs all_dates = Inr all_data \<and> full_df = pd_concat all_data"
    if "\<exists>d df. d \<in> set all_dates \<and> load_data fs d = Inr (Some df) \<and>
              ''health_status'' \<in> set (columns df)"
  proof -
    from that mem have "''health_status'' \<in> set (columns ?df)"
      by (auto simp: pd_concat_columns)
    from assign_health_persisted [OF this] ah la show ?thesis by simp
  qed
  from part1 part2 part3 part4 part5 show ?thesis by blast
qed

lemma load_data_columns:
  assumes "load_data fs d = Inr (Some df)"
  shows "set (columns df) =
           insert ''__date__'' (set (map normalize_name (columns (pd_read_csv fs (csv_path d)))))"
  using assms
  by (auto simp: load_data_def csv_path_def Let_def set_column_def str_lower_column_def
      rename_columns_def split: if_splits sum.splits)

lemma ex_fs_dates:
  "(case prepare ex_fs of Done (ds, df) \<Rightarrow> ds = [''2024-01-01'', ''2024-02-01'', ''2024-03-01'']
    | _ \<Rightarrow> False)"
  by code_simp

lemma ex_fs_prepared:
  "prepare ex_fs = Done ([''2024-01-01'', ''2024-02-01'', ''2024-03-01''], full_df_of ex_fs)"
  using ex_fs_dates by (auto simp: full_df_of_def split: outcome.splits prod.splits)

lemma ex_fs_unlabelled:
  "list_all (\<lambda>d. ''health_status'' \<notin> set (map normalize_name (columns (pd_read_csv ex_fs (csv_path d)))))
     [''2024-01-01'', ''2024-02-01'', ''2024-03-01'']"
  by code_simp

lemma ex_fs_listing: "distinct (os_listdir ex_fs [DATA_DIR])"
  by (simp add: ex_fs_def)

lemma ex_fs_size: "length (rows (full_df_of ex_fs)) = 6"
  by code_simp

theorem date_partitions_and_computed_status_witness:
  "prepare ex_fs = Done ([''2024-01-01'', ''2024-02-01'', ''2024-03-01''], full_df_of ex_fs) \<and>
   distinct (os_listdir ex_fs [DATA_DIR]) \<and>
   (\<exists>df sel. load_data ex_fs ''2024-01-01'' = Inr (Some df) \<and>
      select_eq (full_df_of ex_fs) ''__date__'' ''2024-01-01'' = Inr sel \<and>
      list_all2 (\<lambda>r r'. \<forall>c\<in>set (columns df). c \<noteq> ''health_status'' \<longrightarrow> r' c = r c)
        (rows df) (rows sel) \<and>
      length (rows sel) = 5) \<and>
   load_data ex_fs ''2024-03-01'' = Inr None \<and>
   (\<exists>sel. select_eq (full_df_of ex_fs) ''__date__'' ''2024-03-01'' = Inr sel \<and> rows sel = []) \<and>
   length (rows (full_df_of ex_fs)) = 6 \<and>
   list_all (\<lambda>r. \<exists>l. r ''health_status'' = Str l \<and>
               classify_health [''class'' \<mapsto> r ''class'', ''ndvi'' \<mapsto> r ''ndvi''] = Inr l)
     (rows (full_df_of ex_fs))"
proof -
  note inst = date_partitions_and_computed_status [OF ex_fs_prepared ex_fs_listing]
  have jan: "path_exists ex_fs (csv_path ''2024-01-01'')" by (simp add: ex_fs_def)
  have raw: "pd_read_csv ex_fs (csv_path ''2024-01-01'') = ex_csv_jan" by (simp add: ex_fs_def)
  from load_data_present [OF jan refl] ex_csv_jan_text raw obtain df where
    df: "load_data ex_fs ''2024-01-01'' = Inr (Some df)" and
    len: "length (rows df) = length (rows ex_csv_jan)"
    by (auto simp: set_column_def rename_columns_def)
  have five: "length (rows ex_csv_jan) = 5" by (simp add: ex_csv_jan_def)
  from inst [THEN conjunct1, rule_format, of "''2024-01-01''" df] df obtain sel where
    sel: "select_eq (full_df_of ex_fs) ''__date__'' ''2024-01-01'' = Inr sel"
      "list_all2 (\<lambda>r r'. \<forall>c\<in>set (columns df). c \<noteq> ''health_status'' \<longrightarrow> r' c = r c)
        (rows df) (rows sel)"
    by auto
  from list_all2_lengthD [OF sel(2)] len five have n: "length (rows sel) = 5" by simp
  have mar: "load_data ex_fs ''2024-03-01'' = Inr None"
    by (simp add: load_data_None_iff ex_fs_def csv_path_def health_map_path_def)
  note none = inst [THEN conjunct2, THEN conjunct1, rule_format, OF mar]
  have unl: "\<forall>d df. d \<in> set [''2024-01-01'', ''2024-02-01'', ''2024-03-01''] \<and>
      load_data ex_fs d = Inr (Some df) \<longrightarrow> ''health_status'' \<notin> set (columns df)"
    using ex_fs_unlabelled by (auto simp: load_data_columns simp del: set_map)
  from inst [THEN conjunct2, THEN conjunct2, THEN conjunct2, THEN conjunct1, THEN mp, OF unl]
  have "list_all (\<lambda>r. \<exists>l. r ''health_status'' = Str l \<and>
               classify_health [''class'' \<mapsto> r ''class'', ''ndvi'' \<mapsto> r ''ndvi''] = Inr l)
     (rows (full_df_of ex_fs))"
    by (simp add: list_all_iff)
  with ex_fs_prepared ex_fs_listing df sel n mar none ex_fs_size show ?thesis by blast
qed

theorem persisted_status_counterexample:
  "map_outcome (\<lambda>(ds, df). map (\<lambda>r. (r ''class'', r ''ndvi'', r ''health_status'')) (rows df))
     (prepare ex_fs_labelled) =
     Done [(Str ''palm'', Num (9 / 10), Str ''Unhealthy''),
           (Str ''palm'', Num (9 / 10), Str ''Dead''),
           (Str ''palm'', Num (9 / 10), NaN)] \<and>
   classify_health [''class'' \<mapsto> Str ''palm'', ''ndvi'' \<mapsto> Num (9 / 10)] = Inr ''Healthy''"
  by code_simp

end
